theory Spec2Isabelle
  imports Main "HOL-Library.Word"
begin

section \<open>The serial bridge of \<open>src/main/serial.c\<close>\<close>

text \<open>
  The file relays bytes between a UART and a USB CDC port and translates the host's DTR
  and RTS lines into the target's BOOT and RST pins. Its functions are glue around the
  UART driver, the FreeRTOS queue and ring buffer, the timer service, the GPIO driver and
  the USB stack. The model keeps one record for the file's globals together with the
  state of those collaborators, and a trace of the calls the code makes on them, in
  program order, so that statements about what is called, with which arguments and in
  which order are statements about the trace.
\<close>

subsection \<open>Data\<close>

type_synonym byte = "8 word"
type_synonym u32 = "32 word"

datatype pin = GPIO_BOOT | GPIO_RST

text \<open>A FreeRTOS wait: \<open>pdMS_TO_TICKS(ms)\<close> or \<open>portMAX_DELAY\<close> (wait without limit).\<close>

datatype ticks = pdMS_TO_TICKS nat | portMAX_DELAY

text \<open>\<open>uart_event_t\<close>: the event type, with \<open>event.size\<close> for \<open>UART_DATA\<close>.\<close>

datatype uart_event =
    UART_DATA nat
  | UART_FIFO_OVF
  | UART_BUFFER_FULL
  | UART_BREAK
  | UART_PARITY_ERR
  | UART_FRAME_ERR
  | UART_OTHER nat

text \<open>The log lines of the file, one constructor per format string.\<close>

datatype log_line =
    Uart_to_ringbuffer nat
  | Cannot_write_to_ringbuffer nat nat
  | Uart_fifo_overflow
  | Uart_ring_buffer_full
  | Uart_rx_break
  | Uart_parity_error
  | Uart_frame_error
  | Uart_event_type nat
  | Ringbuffer_to_cdc u32
  | Nothing_to_send
  | Not_initialized
  | Cdc_to_uart nat
  | Transferred_only nat
  | Rx_receive_error
  | Line_state bool bool bool bool
  | Boot_1_rst_1
  | Uart_gpio_initialized
  | Cannot_create_ringbuffer
  | Loader_init_failed

text \<open>The calls the file makes on its collaborators.\<close>

datatype call =
    ESP_LOGE log_line
  | ESP_LOGW log_line
  | ESP_LOGI log_line
  | ESP_LOGD log_line
  | Gpio_set_level pin bool
  | Esp_timer_create
  | Esp_timer_stop
  | Esp_timer_start_once nat
  | XQueueReceive ticks
  | XQueueReset
  | Uart_read_bytes nat ticks
  | Uart_flush_input
  | Uart_write_bytes nat
  | XRingbufferSend nat ticks
  | XRingbufferReceiveUpTo ticks nat
  | VRingbufferReturnItem
  | Tud_cdc_write_available
  | Tud_cdc_write u32
  | Tud_cdc_write_flush
  | Tud_cdc_n_read nat
  | Ets_delay_us nat
  | VTaskDelay ticks
  | TaskYIELD
  | Loader_port_esp32_init
  | XRingbufferCreate nat
  | XTaskCreate string
  | VTaskDelete
  | Uart_set_baudrate u32

text \<open>The ways a function of the file does not return to its caller.\<close>

datatype stop =
    Aborted    \<comment> \<open>\<open>ESP_ERROR_CHECK\<close> failed, or \<open>eub_abort()\<close>\<close>
  | Blocked    \<comment> \<open>a wait with \<open>portMAX_DELAY\<close> on something that never comes\<close>
  | Overrun    \<comment> \<open>a write past the end of a local array\<close>

text \<open>
  The two flags of the file, the handles it owns (queue, ring buffer, timer) as the
  contents they stand for, and the devices behind the driver calls. The timer is
  \<open>None\<close> when stopped and \<open>Some r\<close> when armed with \<open>r\<close> microseconds to go.
\<close>

record bridge =
  serial_init_finished :: bool
  serial_read_enabled :: bool
  uart_queue :: "uart_event list"
  usb_sendbuf :: "byte list"
  state_change_timer :: "nat option"
  gpio_boot :: bool
  gpio_rst :: bool
  uart_rx :: "byte list"
  uart_tx :: "byte list"
  uart_tx_room :: nat
  cdc_rx :: "byte list"
  cdc_tx_fifo :: "byte list"
  cdc_tx_fifo_size :: nat
  host_reading :: bool
  host_received :: "byte list"
  trace :: "call list"

definition SLAVE_UART_BUF_SIZE :: nat where
  "SLAVE_UART_BUF_SIZE = 2 * 1024"

definition USB_SEND_RINGBUFFER_SIZE :: nat where
  "USB_SEND_RINGBUFFER_SIZE = SLAVE_UART_BUF_SIZE"

text \<open>
  The state before \<open>start_serial_task\<close> runs: both flags false, as their C initialisers
  leave them, no timer, nothing queued or buffered, and a port with a 64-byte FIFO.
\<close>

definition power_on :: bridge where
  "power_on =
     \<lparr> serial_init_finished = False, serial_read_enabled = False, uart_queue = [],
       usb_sendbuf = [], state_change_timer = None, gpio_boot = False, gpio_rst = False,
       uart_rx = [], uart_tx = [], uart_tx_room = 0, cdc_rx = [], cdc_tx_fifo = [],
       cdc_tx_fifo_size = 64, host_reading = False, host_received = [], trace = [] \<rparr>"

subsection \<open>The collaborators\<close>

definition emit :: "call \<Rightarrow> bridge \<Rightarrow> bridge" where
  "emit c s = s\<lparr>trace := trace s @ [c]\<rparr>"

definition gpio_set_level :: "pin \<Rightarrow> bool \<Rightarrow> bridge \<Rightarrow> bridge" where
  "gpio_set_level p v s =
     emit (Gpio_set_level p v)
       (case p of GPIO_BOOT \<Rightarrow> s\<lparr>gpio_boot := v\<rparr> | GPIO_RST \<Rightarrow> s\<lparr>gpio_rst := v\<rparr>)"

text \<open>
  Modelled from the spec: the timer service (\<open>esp_timer.h\<close> is not among the sources).
  Section 5: the debounce timer supports stop and restart, and stopping a stopped timer
  does not fail the caller. Section 3: at most one instance is outstanding; starting a
  timer that is still armed is the error that \<open>ESP_ERROR_CHECK\<close> turns into an abort.
\<close>

definition esp_timer_stop :: "bridge \<Rightarrow> bridge" where
  "esp_timer_stop s = emit Esp_timer_stop (s\<lparr>state_change_timer := None\<rparr>)"

definition esp_timer_start_once :: "nat \<Rightarrow> bridge \<Rightarrow> stop + bridge" where
  "esp_timer_start_once timeout_us s =
     (case state_change_timer s of
        Some r \<Rightarrow> Inl Aborted
      | None \<Rightarrow> Inr (emit (Esp_timer_start_once timeout_us)
                       (s\<lparr>state_change_timer := Some timeout_us\<rparr>)))"

subsection \<open>The signal translator\<close>

definition state_change_timer_cb :: "bridge \<Rightarrow> bridge" where
  "state_change_timer_cb s =
     gpio_set_level GPIO_RST True
       (gpio_set_level GPIO_BOOT True (emit (ESP_LOGI Boot_1_rst_1) s))"

definition tud_cdc_line_state_cb :: "byte \<Rightarrow> bool \<Rightarrow> bool \<Rightarrow> bridge \<Rightarrow> stop + bridge" where
  "tud_cdc_line_state_cb itf dtr rts s =
     (if \<not> serial_init_finished s then Inr (emit (ESP_LOGW Not_initialized) s)
      else
        let (rst, boot) =
              (if \<not> dtr \<and> rts then (False, True)
               else if dtr \<and> \<not> rts then (True, False)
               else (True, True));
            s1 = esp_timer_stop s
        in if dtr \<and> rts then esp_timer_start_once (10 * 1000) s1
           else Inr (gpio_set_level GPIO_RST rst
                       (gpio_set_level GPIO_BOOT boot
                          (emit (ESP_LOGI (Line_state dtr rts boot rst)) s1))))"

text \<open>
  Time passing, as the timer service sees it: an armed one-shot timer whose period has
  run out calls \<open>state_change_timer_cb\<close> once and is stopped afterwards.
\<close>

definition elapse :: "nat \<Rightarrow> bridge \<Rightarrow> bridge" where
  "elapse us s =
     (case state_change_timer s of
        None \<Rightarrow> s
      | Some r \<Rightarrow>
          if r \<le> us then state_change_timer_cb (s\<lparr>state_change_timer := None\<rparr>)
          else s\<lparr>state_change_timer := Some (r - us)\<rparr>)"

text \<open>
  A history of the translator's inputs: line-state notifications from the host and the
  time that passes between them, in microseconds. The USB stack delivers one
  notification at a time (interface 0 is the bridge's only CDC interface).
\<close>

datatype input = Line_state_change bool bool | Wait nat

fun run :: "input list \<Rightarrow> bridge \<Rightarrow> stop + bridge" where
  "run [] s = Inr s"
| "run (Line_state_change dtr rts # es) s =
     (case tud_cdc_line_state_cb 0 dtr rts s of Inl e \<Rightarrow> Inl e | Inr s' \<Rightarrow> run es s')"
| "run (Wait us # es) s = run es (elapse us s)"

subsection \<open>The UART driver and its event queue\<close>

text \<open>
  Modelled from the spec: the Byte Transport Port of section 6 (\<open>driver/uart.h\<close> and the
  FreeRTOS queue are not among the sources). \<open>read(buf, max_len, deadline)\<close> returns the
  bytes asked for once the port holds them; with a deadline it returns what is there when
  the deadline passes, and with \<open>portMAX_DELAY\<close> it waits for the rest without limit.
  \<open>write\<close> returns how many bytes the port took. A receive on the empty queue waits in
  the same way.
\<close>

definition uart_read_bytes :: "nat \<Rightarrow> ticks \<Rightarrow> bridge \<Rightarrow> stop + (byte list \<times> bridge)" where
  "uart_read_bytes len ticks_to_wait s =
     (let s1 = emit (Uart_read_bytes len ticks_to_wait) s in
      if len \<le> length (uart_rx s)
      then Inr (take len (uart_rx s), s1\<lparr>uart_rx := drop len (uart_rx s)\<rparr>)
      else (case ticks_to_wait of
              portMAX_DELAY \<Rightarrow> Inl Blocked
            | pdMS_TO_TICKS ms \<Rightarrow> Inr (uart_rx s, s1\<lparr>uart_rx := []\<rparr>)))"

definition uart_flush_input :: "bridge \<Rightarrow> bridge" where
  "uart_flush_input s = emit Uart_flush_input (s\<lparr>uart_rx := []\<rparr>)"

definition uart_write_bytes :: "byte list \<Rightarrow> bridge \<Rightarrow> nat \<times> bridge" where
  "uart_write_bytes src s =
     (let n = min (length src) (uart_tx_room s)
      in (n, emit (Uart_write_bytes (length src))
               (s\<lparr>uart_tx := uart_tx s @ take n src, uart_tx_room := uart_tx_room s - n\<rparr>)))"

definition xQueueReceive :: "ticks \<Rightarrow> bridge \<Rightarrow> stop + (uart_event option \<times> bridge)" where
  "xQueueReceive ticks_to_wait s =
     (let s1 = emit (XQueueReceive ticks_to_wait) s in
      case uart_queue s of
        event # q \<Rightarrow> Inr (Some event, s1\<lparr>uart_queue := q\<rparr>)
      | [] \<Rightarrow> (case ticks_to_wait of
                 portMAX_DELAY \<Rightarrow> Inl Blocked
               | pdMS_TO_TICKS ms \<Rightarrow> Inr (None, s1)))"

definition xQueueReset :: "bridge \<Rightarrow> bridge" where
  "xQueueReset s = emit XQueueReset (s\<lparr>uart_queue := []\<rparr>)"

subsection \<open>The relay buffer\<close>

text \<open>
  Modelled from the spec: the Relay Buffer of section 4.1 (\<open>freertos/ringbuf.h\<close> is not
  among the sources). \<open>push\<close> waits up to its timeout for space and then fails as a
  whole, with nothing written; \<open>pop_up_to\<close> waits up to its timeout for any data and
  returns what is there, up to the maximum. The item stays in the buffer until it is
  returned.
\<close>

definition xRingbufferGetCurFreeSize :: "bridge \<Rightarrow> nat" where
  "xRingbufferGetCurFreeSize s = USB_SEND_RINGBUFFER_SIZE - length (usb_sendbuf s)"

definition xRingbufferSend :: "byte list \<Rightarrow> ticks \<Rightarrow> bridge \<Rightarrow> stop + (bool \<times> bridge)" where
  "xRingbufferSend item ticks_to_wait s =
     (let s1 = emit (XRingbufferSend (length item) ticks_to_wait) s in
      if length item \<le> xRingbufferGetCurFreeSize s
      then Inr (True, s1\<lparr>usb_sendbuf := usb_sendbuf s @ item\<rparr>)
      else (case ticks_to_wait of
              portMAX_DELAY \<Rightarrow> Inl Blocked
            | pdMS_TO_TICKS ms \<Rightarrow> Inr (False, s1)))"

definition xRingbufferReceiveUpTo ::
    "ticks \<Rightarrow> nat \<Rightarrow> bridge \<Rightarrow> stop + (byte list option \<times> bridge)" where
  "xRingbufferReceiveUpTo ticks_to_wait max_size s =
     (let s1 = emit (XRingbufferReceiveUpTo ticks_to_wait max_size) s;
          item = take max_size (usb_sendbuf s)
      in if item \<noteq> [] then Inr (Some item, s1)
         else (case ticks_to_wait of
                 portMAX_DELAY \<Rightarrow> Inl Blocked
               | pdMS_TO_TICKS ms \<Rightarrow> Inr (None, s1)))"

definition vRingbufferReturnItem :: "byte list \<Rightarrow> bridge \<Rightarrow> bridge" where
  "vRingbufferReturnItem item s =
     emit VRingbufferReturnItem (s\<lparr>usb_sendbuf := drop (length item) (usb_sendbuf s)\<rparr>)"

subsection \<open>The USB CDC port\<close>

text \<open>
  Modelled from the spec: the Host Transport Port of section 6 (\<open>tinyusb.h\<close> is not among
  the sources). The port has a transmit FIFO of \<open>cdc_tx_fifo_size\<close> bytes:
  \<open>write_available\<close> is its free space, \<open>write\<close> takes as many bytes as fit and returns
  their number, and \<open>flush\<close> hands the FIFO to the host when the host is reading.
  \<open>read\<close> returns the received bytes, up to the maximum.
\<close>

definition tud_cdc_write_available :: "bridge \<Rightarrow> u32 \<times> bridge" where
  "tud_cdc_write_available s =
     (of_nat (cdc_tx_fifo_size s - length (cdc_tx_fifo s)), emit Tud_cdc_write_available s)"

definition tud_cdc_write :: "byte list \<Rightarrow> u32 \<Rightarrow> bridge \<Rightarrow> u32 \<times> bridge" where
  "tud_cdc_write buffer bufsize s =
     (let n = min (min (unat bufsize) (length buffer))
                  (cdc_tx_fifo_size s - length (cdc_tx_fifo s))
      in (of_nat n, emit (Tud_cdc_write bufsize)
                      (s\<lparr>cdc_tx_fifo := cdc_tx_fifo s @ take n buffer\<rparr>)))"

definition tud_cdc_write_flush :: "bridge \<Rightarrow> bridge" where
  "tud_cdc_write_flush s =
     emit Tud_cdc_write_flush
       (if host_reading s
        then s\<lparr>host_received := host_received s @ cdc_tx_fifo s, cdc_tx_fifo := []\<rparr>
        else s)"

definition tud_cdc_n_read :: "byte \<Rightarrow> nat \<Rightarrow> bridge \<Rightarrow> byte list \<times> bridge" where
  "tud_cdc_n_read itf bufsize s =
     (let n = min bufsize (length (cdc_rx s))
      in (take n (cdc_rx s), emit (Tud_cdc_n_read bufsize) (s\<lparr>cdc_rx := drop n (cdc_rx s)\<rparr>)))"

subsection \<open>Delays\<close>

definition ets_delay_us :: "nat \<Rightarrow> bridge \<Rightarrow> bridge" where
  "ets_delay_us us s = emit (Ets_delay_us us) s"

definition vTaskDelay :: "ticks \<Rightarrow> bridge \<Rightarrow> bridge" where
  "vTaskDelay ticks_to_delay s = emit (VTaskDelay ticks_to_delay) s"

definition taskYIELD :: "bridge \<Rightarrow> bridge" where
  "taskYIELD s = emit TaskYIELD s"

subsection \<open>The relay loop: \<open>uart_event_task\<close>\<close>

text \<open>
  The \<open>switch\<close> on the event type. \<open>dtmp\<close> has \<open>SLAVE_UART_BUF_SIZE\<close> bytes, so a
  read of more than that writes past its end.
\<close>

fun uart_event_switch :: "uart_event \<Rightarrow> bridge \<Rightarrow> stop + bridge" where
  "uart_event_switch (UART_DATA event_size) s =
     (if serial_read_enabled s then
        (case uart_read_bytes event_size portMAX_DELAY s of
           Inl e \<Rightarrow> Inl e
         | Inr (dtmp, s1) \<Rightarrow>
             if SLAVE_UART_BUF_SIZE < length dtmp then Inl Overrun
             else
               (case xRingbufferSend dtmp (pdMS_TO_TICKS 10)
                       (emit (ESP_LOGD (Uart_to_ringbuffer event_size)) s1) of
                  Inl e \<Rightarrow> Inl e
                | Inr (sent, s2) \<Rightarrow>
                    if \<not> sent then
                      Inr (vTaskDelay (pdMS_TO_TICKS 10)
                             (emit (ESP_LOGW (Cannot_write_to_ringbuffer
                                      (xRingbufferGetCurFreeSize s2) USB_SEND_RINGBUFFER_SIZE)) s2))
                    else Inr s2))
      else Inr s)"
| "uart_event_switch UART_FIFO_OVF s =
     Inr (xQueueReset (uart_flush_input (emit (ESP_LOGW Uart_fifo_overflow) s)))"
| "uart_event_switch UART_BUFFER_FULL s =
     Inr (xQueueReset (uart_flush_input (emit (ESP_LOGW Uart_ring_buffer_full) s)))"
| "uart_event_switch UART_BREAK s = Inr (emit (ESP_LOGW Uart_rx_break) s)"
| "uart_event_switch UART_PARITY_ERR s = Inr (emit (ESP_LOGW Uart_parity_error) s)"
| "uart_event_switch UART_FRAME_ERR s = Inr (emit (ESP_LOGW Uart_frame_error) s)"
| "uart_event_switch (UART_OTHER event_type) s =
     Inr (emit (ESP_LOGW (Uart_event_type event_type)) s)"

text \<open>One pass of the body of \<open>while (1)\<close>.\<close>

definition uart_event_task :: "bridge \<Rightarrow> stop + bridge" where
  "uart_event_task s =
     (case xQueueReceive portMAX_DELAY s of
        Inl e \<Rightarrow> Inl e
      | Inr (None, s1) \<Rightarrow> Inr (vTaskDelay (pdMS_TO_TICKS 10) s1)
      | Inr (Some event, s1) \<Rightarrow>
          (case uart_event_switch event s1 of
             Inl e \<Rightarrow> Inl e
           | Inr s2 \<Rightarrow> Inr (vTaskDelay (pdMS_TO_TICKS 10) (taskYIELD s2))))"

subsection \<open>The sender loop: \<open>usb_sender_task\<close>\<close>

text \<open>
  The body of the \<open>for\<close> loop over \<open>(transferred, to_send, try_cnt)\<close>. All three are
  32-bit; the comparisons are unsigned, as C's conversions make them. \<open>try_cnt\<close> is
  incremented only when the port reports less room than \<open>to_send\<close>.
\<close>

definition usb_send_body :: "byte list \<Rightarrow> u32 \<times> u32 \<times> u32 \<times> bridge \<Rightarrow> u32 \<times> u32 \<times> u32 \<times> bridge" where
  "usb_send_body int_buf v =
     (case v of (transferred, to_send, try_cnt, s) \<Rightarrow>
        let (avail, s1) = tud_cdc_write_available s;
            try_cnt1 = (if avail < to_send then try_cnt + 1 else try_cnt)
        in if avail < to_send \<and> try_cnt1 < 10
           then (transferred, to_send, try_cnt1, ets_delay_us 100 (tud_cdc_write_flush s1))
           else
             let (t, s2) = tud_cdc_write (drop (unat transferred) int_buf) to_send s1
             in (transferred + t, to_send - t, 0, emit (ESP_LOGD (Ringbuffer_to_cdc t)) s2))"

text \<open>The \<open>for\<close> loop: it has no exit but \<open>transferred < ringbuf_received\<close> failing.\<close>

partial_function (option) usb_send_loop ::
    "byte list \<Rightarrow> u32 \<Rightarrow> u32 \<times> u32 \<times> u32 \<times> bridge \<Rightarrow> bridge option" where
  [code]: "usb_send_loop int_buf ringbuf_received v =
     (if fst v < ringbuf_received
      then usb_send_loop int_buf ringbuf_received (usb_send_body int_buf v)
      else Some (snd (snd (snd v))))"

text \<open>
  One pass of the body of \<open>while (1)\<close>; \<open>None\<close> when the \<open>for\<close> loop does not end.
  \<open>tx_bufsize\<close> is \<open>CONFIG_USB_CDC_TX_BUFSIZE\<close>.
\<close>

definition usb_sender_task :: "nat \<Rightarrow> bridge \<Rightarrow> bridge option" where
  "usb_sender_task tx_bufsize s =
     (case xRingbufferReceiveUpTo (pdMS_TO_TICKS 100) tx_bufsize s of
        Inl e \<Rightarrow> None
      | Inr (None, s1) \<Rightarrow>
          Some (vTaskDelay (pdMS_TO_TICKS 100) (emit (ESP_LOGD Nothing_to_send) s1))
      | Inr (Some buf, s1) \<Rightarrow>
          let ringbuf_received = of_nat (length buf);
              int_buf = buf;
              s2 = vRingbufferReturnItem buf s1
          in (case usb_send_loop int_buf ringbuf_received (0, ringbuf_received, 0, s2) of
                None \<Rightarrow> None
              | Some s3 \<Rightarrow> Some (tud_cdc_write_flush s3)))"

subsection \<open>The host callbacks and the control calls\<close>

text \<open>\<open>rx_bufsize\<close> is \<open>CONFIG_USB_CDC_RX_BUFSIZE\<close>.\<close>

definition tud_cdc_rx_cb :: "nat \<Rightarrow> byte \<Rightarrow> bridge \<Rightarrow> bridge" where
  "tud_cdc_rx_cb rx_bufsize itf s =
     (if \<not> serial_init_finished s then emit (ESP_LOGW Not_initialized) s
      else
        let (buf, s1) = tud_cdc_n_read itf rx_bufsize s;
            rx_size = length buf
        in if rx_size > 0 then
             let (transferred, s2) = uart_write_bytes buf (emit (ESP_LOGD (Cdc_to_uart rx_size)) s1)
             in if transferred \<noteq> rx_size
                then emit (ESP_LOGW (Transferred_only transferred)) s2
                else s2
           else emit (ESP_LOGW Rx_receive_error) s1)"

definition init_state_change_timer :: "bridge \<Rightarrow> bridge" where
  "init_state_change_timer s = emit Esp_timer_create (s\<lparr>state_change_timer := None\<rparr>)"

text \<open>
  Modelled from the spec: \<open>eub_abort\<close> (\<open>util.h\<close> is not among the sources). Section 7:
  an initialisation failure is fatal and halts the process.
\<close>

definition eub_abort :: "bridge \<Rightarrow> stop + bridge" where
  "eub_abort s = Inl Aborted"

text \<open>
  \<open>loader_ok\<close> says whether \<open>loader_port_esp32_init\<close> succeeded and \<open>ringbuf_ok\<close>
  whether \<open>xRingbufferCreate\<close> returned a buffer.
\<close>

definition start_serial_task :: "bool \<Rightarrow> bool \<Rightarrow> bridge \<Rightarrow> stop + bridge" where
  "start_serial_task loader_ok ringbuf_ok s =
     (let s0 = emit Loader_port_esp32_init s in
      if loader_ok then
        let s1 = emit (ESP_LOGI Uart_gpio_initialized) s0;
            s2 = gpio_set_level GPIO_RST True s1;
            s3 = gpio_set_level GPIO_BOOT True s2;
            s4 = init_state_change_timer s3;
            s5 = emit (XRingbufferCreate USB_SEND_RINGBUFFER_SIZE) (s4\<lparr>usb_sendbuf := []\<rparr>)
        in if ringbuf_ok then
             let s6 = emit (XTaskCreate ''usb_sender_task'') s5;
                 s7 = emit (XTaskCreate ''uart_event_task'') s6
             in Inr (emit VTaskDelete
                       (s7\<lparr>serial_init_finished := True, serial_read_enabled := True\<rparr>))
           else eub_abort (emit (ESP_LOGE Cannot_create_ringbuffer) s5)
      else eub_abort (emit (ESP_LOGE Loader_init_failed) s0))"

definition serial_set :: "bool \<Rightarrow> bridge \<Rightarrow> bridge" where
  "serial_set enable s = s\<lparr>serial_read_enabled := enable\<rparr>"


subsection \<open>States of the port and of the bridge used in the statements\<close>

text \<open>
  A host that has stopped reading: the port's transmit FIFO is full and a flush moves
  nothing out of it. Then \<open>tud_cdc_write_available\<close> is 0 and every \<open>tud_cdc_write\<close>
  takes 0 bytes.
\<close>

definition host_stalled :: "bridge \<Rightarrow> bool" where
  "host_stalled s = (\<not> host_reading s \<and> cdc_tx_fifo_size s \<le> length (cdc_tx_fifo s))"

text \<open>
  What the \<open>for\<close> loop's variables satisfy on every pass against such a host: nothing
  transferred, everything still to send.
\<close>

definition stall_inv :: "u32 \<Rightarrow> u32 \<times> u32 \<times> u32 \<times> bridge \<Rightarrow> bool" where
  "stall_inv n v = (fst v = 0 \<and> fst (snd v) = n \<and> n \<noteq> 0 \<and> host_stalled (snd (snd (snd v))))"

text \<open>
  The bridge as \<open>start_serial_task\<close> leaves it, with room in the UART for 128 bytes.
\<close>

definition running_example :: bridge where
  "running_example =
     power_on\<lparr>serial_init_finished := True, serial_read_enabled := True,
              gpio_boot := True, gpio_rst := True, uart_tx_room := 128\<rparr>"

text \<open>
  The running bridge with one byte in the relay buffer and a full 64-byte FIFO that the
  host does not read, and with three bytes in the relay buffer and a 2-byte FIFO that the
  host reads.
\<close>

definition stalled_example :: bridge where
  "stalled_example =
     power_on\<lparr>serial_init_finished := True, serial_read_enabled := True,
              usb_sendbuf := [0x41], cdc_tx_fifo := replicate 64 0\<rparr>"

definition reading_example :: bridge where
  "reading_example =
     power_on\<lparr>serial_init_finished := True, serial_read_enabled := True,
              usb_sendbuf := [0x41, 0x42, 0x43], cdc_tx_fifo_size := 2, host_reading := True\<rparr>"


text \<open>
  The calls the \<open>for\<close> loop of the sender makes: on the USB port, the delay between
  retries and the debug line after a write. None of them is a call on the relay buffer.
\<close>

fun is_port_call :: "call \<Rightarrow> bool" where
  "is_port_call Tud_cdc_write_available = True"
| "is_port_call (Tud_cdc_write n) = True"
| "is_port_call Tud_cdc_write_flush = True"
| "is_port_call (Ets_delay_us us) = True"
| "is_port_call (ESP_LOGD (Ringbuffer_to_cdc t)) = True"
| "is_port_call c = False"

text \<open>
  \<open>same_but_port s s'\<close>: the two states differ at most in the port's FIFO, in what the
  host has received and in the trace. \<open>port_calls_since s s'\<close>: the trace of \<open>s'\<close> is
  the trace of \<open>s\<close> followed by calls of the sender's \<open>for\<close> loop only.
\<close>

definition same_but_port :: "bridge \<Rightarrow> bridge \<Rightarrow> bool" where
  "same_but_port s s' =
     (s'\<lparr>cdc_tx_fifo := cdc_tx_fifo s, host_received := host_received s, trace := trace s\<rparr> = s)"

definition port_calls_since :: "bridge \<Rightarrow> bridge \<Rightarrow> bool" where
  "port_calls_since s s' =
     (take (length (trace s)) (trace s') = trace s
      \<and> list_all is_port_call (drop (length (trace s)) (trace s')))"


section \<open>Properties\<close>

lemmas translator_defs =
  tud_cdc_line_state_cb_def esp_timer_stop_def esp_timer_start_once_def
  gpio_set_level_def state_change_timer_cb_def elapse_def emit_def

subsection \<open>The signal translator\<close>

text \<open>
  Waiting does nothing to a stopped timer. An armed timer fires once the waits add up to
  what it had left, and not before.
\<close>

lemma run_waits_stopped:
  "state_change_timer s = None \<Longrightarrow> run (map Wait ws) s = Inr s"
  by (induction ws) (simp_all add: elapse_def)

lemma run_waits_armed:
  "state_change_timer s = Some r \<Longrightarrow> 0 < r \<Longrightarrow>
   run (map Wait ws) s =
     Inr (if r \<le> sum_list ws then state_change_timer_cb (s\<lparr>state_change_timer := None\<rparr>)
          else s\<lparr>state_change_timer := Some (r - sum_list ws)\<rparr>)"
proof (induction ws arbitrary: s r)
  case Nil
  then show ?case by simp
next
  case (Cons w ws)
  show ?case
  proof (cases "r \<le> w")
    case True
    have "state_change_timer (elapse w s) = None"
      using Cons.prems True by (simp add: translator_defs)
    then have "run (map Wait ws) (elapse w s) = Inr (elapse w s)"
      by (rule run_waits_stopped)
    then show ?thesis using Cons.prems True by (simp add: elapse_def)
  next
    case False
    then have armed: "state_change_timer (elapse w s) = Some (r - w)" and pos: "0 < r - w"
      using Cons.prems by (simp_all add: elapse_def)
    show ?thesis
      using Cons.IH [OF armed pos] Cons.prems False by (auto simp add: elapse_def)
  qed
qed

text \<open>
  The timer covers 10000 microseconds and no more: when the (DTR=1,RTS=0) notification
  comes that long after the (DTR=1,RTS=1) one, the callback has run in between.
\<close>

lemma late_line_state_fires:
  assumes "serial_init_finished s"
  shows "\<exists>s'. run [Line_state_change False True, Wait gap1, Line_state_change True True,
                   Wait 10000, Line_state_change True False] s = Inr s'
           \<and> trace s' = trace s @
                 [Esp_timer_stop, ESP_LOGI (Line_state False True True False),
                  Gpio_set_level GPIO_BOOT True, Gpio_set_level GPIO_RST False,
                  Esp_timer_stop, Esp_timer_start_once 10000,
                  ESP_LOGI Boot_1_rst_1,
                  Gpio_set_level GPIO_BOOT True, Gpio_set_level GPIO_RST True,
                  Esp_timer_stop, ESP_LOGI (Line_state True False False True),
                  Gpio_set_level GPIO_BOOT False, Gpio_set_level GPIO_RST True]"
  using assms by (simp add: translator_defs)

text \<open>
  Before \<open>start_serial_task\<close> has finished the handler returns at its guard: a
  (DTR=1,RTS=1) notification followed by any wait arms no timer and sets no pin.
\<close>

lemma line_state_before_init:
  "\<not> serial_init_finished power_on
   \<and> run [Line_state_change True True, Wait 10000, Wait 1000000] power_on
       = Inr (power_on\<lparr>trace := [ESP_LOGW Not_initialized]\<rparr>)"
  by (simp add: power_on_def translator_defs)

text \<open>
  C1. On the initialised bridge, (DTR=0,RTS=1) followed after any gap
  by (DTR=1,RTS=0) applies BOOT=1, RST=0 and then BOOT=0, RST=1 and nothing between them;
  the same holds when a (DTR=1,RTS=1) notification comes between the two and the
  (DTR=1,RTS=0) follows it within the 10000 microseconds of the timer: the pins stay at
  BOOT=1, RST=0 and the timer is stopped before it fires. A (DTR=1,RTS=1) notification
  followed only by waits that add up to 10000 microseconds or more applies BOOT=1, RST=1
  once, from the timer's callback, however long the waiting goes on.
\<close>

theorem esptool_sequence_debounced:
  assumes "serial_init_finished s" and "gap2 < 10000" and "10000 \<le> sum_list ws"
  shows "(\<exists>s'. run [Line_state_change False True, Wait gap,
                   Line_state_change True False] s = Inr s'
            \<and> trace s' = trace s @
                 [Esp_timer_stop, ESP_LOGI (Line_state False True True False),
                  Gpio_set_level GPIO_BOOT True, Gpio_set_level GPIO_RST False,
                  Esp_timer_stop, ESP_LOGI (Line_state True False False True),
                  Gpio_set_level GPIO_BOOT False, Gpio_set_level GPIO_RST True])
       \<and> (\<exists>s'. run [Line_state_change False True, Wait gap1,
                   Line_state_change True True, Wait gap2] s = Inr s'
            \<and> trace s' = trace s @
                 [Esp_timer_stop, ESP_LOGI (Line_state False True True False),
                  Gpio_set_level GPIO_BOOT True, Gpio_set_level GPIO_RST False,
                  Esp_timer_stop, Esp_timer_start_once 10000]
            \<and> gpio_boot s' \<and> \<not> gpio_rst s')
       \<and> (\<exists>s'. run [Line_state_change False True, Wait gap1,
                   Line_state_change True True, Wait gap2,
                   Line_state_change True False] s = Inr s'
            \<and> trace s' = trace s @
                 [Esp_timer_stop, ESP_LOGI (Line_state False True True False),
                  Gpio_set_level GPIO_BOOT True, Gpio_set_level GPIO_RST False,
                  Esp_timer_stop, Esp_timer_start_once 10000,
                  Esp_timer_stop, ESP_LOGI (Line_state True False False True),
                  Gpio_set_level GPIO_BOOT False, Gpio_set_level GPIO_RST True]
            \<and> state_change_timer s' = None)
       \<and> (\<exists>s'. run (Line_state_change True True # map Wait ws) s = Inr s'
            \<and> trace s' = trace s @
                 [Esp_timer_stop, Esp_timer_start_once 10000, ESP_LOGI Boot_1_rst_1,
                  Gpio_set_level GPIO_BOOT True, Gpio_set_level GPIO_RST True]
            \<and> state_change_timer s' = None \<and> gpio_boot s' \<and> gpio_rst s')"
proof (intro conjI)
  show "\<exists>s'. run [Line_state_change False True, Wait gap,
                   Line_state_change True False] s = Inr s'
            \<and> trace s' = trace s @
                 [Esp_timer_stop, ESP_LOGI (Line_state False True True False),
                  Gpio_set_level GPIO_BOOT True, Gpio_set_level GPIO_RST False,
                  Esp_timer_stop, ESP_LOGI (Line_state True False False True),
                  Gpio_set_level GPIO_BOOT False, Gpio_set_level GPIO_RST True]"
    using assms(1) by (simp add: translator_defs)
next
  show "\<exists>s'. run [Line_state_change False True, Wait gap1,
                   Line_state_change True True, Wait gap2] s = Inr s'
            \<and> trace s' = trace s @
                 [Esp_timer_stop, ESP_LOGI (Line_state False True True False),
                  Gpio_set_level GPIO_BOOT True, Gpio_set_level GPIO_RST False,
                  Esp_timer_stop, Esp_timer_start_once 10000]
            \<and> gpio_boot s' \<and> \<not> gpio_rst s'"
    using assms(1,2) by (simp add: translator_defs)
next
  show "\<exists>s'. run [Line_state_change False True, Wait gap1,
                   Line_state_change True True, Wait gap2,
                   Line_state_change True False] s = Inr s'
            \<and> trace s' = trace s @
                 [Esp_timer_stop, ESP_LOGI (Line_state False True True False),
                  Gpio_set_level GPIO_BOOT True, Gpio_set_level GPIO_RST False,
                  Esp_timer_stop, Esp_timer_start_once 10000,
                  Esp_timer_stop, ESP_LOGI (Line_state True False False True),
                  Gpio_set_level GPIO_BOOT False, Gpio_set_level GPIO_RST True]
            \<and> state_change_timer s' = None"
    using assms(1,2) by (simp add: translator_defs)
next
  obtain s1 where s1: "tud_cdc_line_state_cb 0 True True s = Inr s1"
      "trace s1 = trace s @ [Esp_timer_stop, Esp_timer_start_once 10000]"
      "state_change_timer s1 = Some 10000"
    using assms(1) by (simp add: translator_defs)
  have "run (map Wait ws) s1 = Inr (state_change_timer_cb (s1\<lparr>state_change_timer := None\<rparr>))"
    using run_waits_armed [OF s1(3), of ws] assms(3) by simp
  then show "\<exists>s'. run (Line_state_change True True # map Wait ws) s = Inr s'
            \<and> trace s' = trace s @
                 [Esp_timer_stop, Esp_timer_start_once 10000, ESP_LOGI Boot_1_rst_1,
                  Gpio_set_level GPIO_BOOT True, Gpio_set_level GPIO_RST True]
            \<and> state_change_timer s' = None \<and> gpio_boot s' \<and> gpio_rst s'"
    using s1(1,2) by (simp add: state_change_timer_cb_def gpio_set_level_def emit_def)
qed

theorem esptool_sequence_debounced_witness:
  "serial_init_finished (power_on\<lparr>serial_init_finished := True\<rparr>) \<and> (9999::nat) < 10000
   \<and> (10000::nat) \<le> sum_list [4000, 6000, 50000]
   \<and> (\<exists>s'. run [Line_state_change False True, Wait 0, Line_state_change True True, Wait 9999,
                 Line_state_change True False] (power_on\<lparr>serial_init_finished := True\<rparr>) = Inr s'
          \<and> trace s' =
                 [Esp_timer_stop, ESP_LOGI (Line_state False True True False),
                  Gpio_set_level GPIO_BOOT True, Gpio_set_level GPIO_RST False,
                  Esp_timer_stop, Esp_timer_start_once 10000,
                  Esp_timer_stop, ESP_LOGI (Line_state True False False True),
                  Gpio_set_level GPIO_BOOT False, Gpio_set_level GPIO_RST True])
   \<and> (\<exists>s'. run (Line_state_change True True # map Wait [4000, 6000, 50000])
                (power_on\<lparr>serial_init_finished := True\<rparr>) = Inr s'
          \<and> trace s' =
                 [Esp_timer_stop, Esp_timer_start_once 10000, ESP_LOGI Boot_1_rst_1,
                  Gpio_set_level GPIO_BOOT True, Gpio_set_level GPIO_RST True])"
  using esptool_sequence_debounced
          [of "power_on\<lparr>serial_init_finished := True\<rparr>" 9999 "[4000, 6000, 50000]" 0 0]
  by (simp add: power_on_def translator_defs)


text \<open>
  C2. After initialisation the line-state handler stops the timer before anything else.
  Then (DTR,RTS) = (0,0) sets BOOT=1, RST=1 at once, (0,1) sets BOOT=1, RST=0, (1,0) sets
  BOOT=0, RST=1, and (1,1) sets no pin: it arms the one-shot timer for 10000 microseconds,
  and when that time has passed the timer's callback sets BOOT=1, RST=1. The handler
  returns in every case, whatever state the timer was in.
\<close>

theorem line_state_cb_table:
  assumes "serial_init_finished s"
  shows "(case tud_cdc_line_state_cb itf False False s of
            Inl e \<Rightarrow> False
          | Inr s' \<Rightarrow>
              trace s' = trace s @ [Esp_timer_stop, ESP_LOGI (Line_state False False True True),
                            Gpio_set_level GPIO_BOOT True, Gpio_set_level GPIO_RST True]
              \<and> state_change_timer s' = None \<and> gpio_boot s' \<and> gpio_rst s')
       \<and> (case tud_cdc_line_state_cb itf False True s of
            Inl e \<Rightarrow> False
          | Inr s' \<Rightarrow>
              trace s' = trace s @ [Esp_timer_stop, ESP_LOGI (Line_state False True True False),
                            Gpio_set_level GPIO_BOOT True, Gpio_set_level GPIO_RST False]
              \<and> state_change_timer s' = None \<and> gpio_boot s' \<and> \<not> gpio_rst s')
       \<and> (case tud_cdc_line_state_cb itf True False s of
            Inl e \<Rightarrow> False
          | Inr s' \<Rightarrow>
              trace s' = trace s @ [Esp_timer_stop, ESP_LOGI (Line_state True False False True),
                            Gpio_set_level GPIO_BOOT False, Gpio_set_level GPIO_RST True]
              \<and> state_change_timer s' = None \<and> \<not> gpio_boot s' \<and> gpio_rst s')
       \<and> (case tud_cdc_line_state_cb itf True True s of
            Inl e \<Rightarrow> False
          | Inr s' \<Rightarrow>
              trace s' = trace s @ [Esp_timer_stop, Esp_timer_start_once 10000]
              \<and> state_change_timer s' = Some 10000
              \<and> gpio_boot s' = gpio_boot s \<and> gpio_rst s' = gpio_rst s
              \<and> elapse 10000 s' = state_change_timer_cb (s'\<lparr>state_change_timer := None\<rparr>)
              \<and> trace (elapse 10000 s') =
                  trace s' @ [ESP_LOGI Boot_1_rst_1,
                              Gpio_set_level GPIO_BOOT True, Gpio_set_level GPIO_RST True]
              \<and> gpio_boot (elapse 10000 s') \<and> gpio_rst (elapse 10000 s'))"
  using assms
  by (simp add: tud_cdc_line_state_cb_def esp_timer_stop_def esp_timer_start_once_def
        gpio_set_level_def state_change_timer_cb_def elapse_def emit_def)

theorem line_state_cb_table_witness:
  "serial_init_finished (power_on\<lparr>serial_init_finished := True, state_change_timer := Some 5000\<rparr>)
   \<and> (case tud_cdc_line_state_cb 0 True True
             (power_on\<lparr>serial_init_finished := True, state_change_timer := Some 5000\<rparr>) of
        Inl e \<Rightarrow> False
      | Inr s' \<Rightarrow> trace s' = [Esp_timer_stop, Esp_timer_start_once 10000]
                  \<and> state_change_timer s' = Some 10000 \<and> gpio_boot (elapse 10000 s'))
   \<and> (case tud_cdc_line_state_cb 0 True False
             (power_on\<lparr>serial_init_finished := True, state_change_timer := Some 5000\<rparr>) of
        Inl e \<Rightarrow> False
      | Inr s' \<Rightarrow> state_change_timer s' = None \<and> \<not> gpio_boot s' \<and> gpio_rst s')"
  using line_state_cb_table
          [of "power_on\<lparr>serial_init_finished := True, state_change_timer := Some 5000\<rparr>" 0]
  by (simp add: power_on_def tud_cdc_line_state_cb_def esp_timer_stop_def
        esp_timer_start_once_def gpio_set_level_def state_change_timer_cb_def elapse_def emit_def)


subsection \<open>The sender loop against a host that does not read\<close>

lemmas port_defs =
  tud_cdc_write_available_def tud_cdc_write_def tud_cdc_write_flush_def ets_delay_us_def emit_def

lemma usb_send_body_stalled:
  assumes "host_stalled s" and "n \<noteq> 0"
  shows "\<exists>try_cnt' s'. usb_send_body int_buf (0, n, try_cnt, s) = (0, n, try_cnt', s')
           \<and> host_stalled s' \<and> usb_sendbuf s' = usb_sendbuf s"
  using assms
  by (simp add: usb_send_body_def host_stalled_def port_defs word_greater_zero_iff Let_def)

text \<open>
  Against a stalled host one round of the loop is nine passes that flush and wait 100
  microseconds, and a tenth that calls \<open>tud_cdc_write\<close>, which takes nothing. The
  round ends where it began: \<open>transferred\<close> is 0 and \<open>try_cnt\<close> is 0 again.
\<close>

lemma usb_send_body_retry:
  assumes "host_stalled s" and "n \<noteq> 0" and "try_cnt + 1 < 10"
  shows "usb_send_body int_buf (0, n, try_cnt, s) =
           (0, n, try_cnt + 1,
            s\<lparr>trace := trace s @ [Tud_cdc_write_available, Tud_cdc_write_flush, Ets_delay_us 100]\<rparr>)"
  using assms
  by (simp add: usb_send_body_def host_stalled_def port_defs word_greater_zero_iff Let_def)

lemma usb_send_body_write:
  assumes "host_stalled s" and "n \<noteq> 0" and "\<not> try_cnt + 1 < 10"
  shows "usb_send_body int_buf (0, n, try_cnt, s) =
           (0, n, 0,
            s\<lparr>trace := trace s @ [Tud_cdc_write_available, Tud_cdc_write n,
                                   ESP_LOGD (Ringbuffer_to_cdc 0)]\<rparr>)"
  using assms
  by (simp add: usb_send_body_def host_stalled_def port_defs word_greater_zero_iff Let_def)

lemma host_stalled_trace [simp]: "host_stalled (s\<lparr>trace := tr\<rparr>) = host_stalled s"
  by (simp add: host_stalled_def)

lemma usb_send_round_stalled:
  assumes "host_stalled s" and "n \<noteq> 0"
  shows "(usb_send_body int_buf ^^ 10) (0, n, 0, s) =
           (0, n, 0, s\<lparr>trace := trace s
               @ concat (replicate 9 [Tud_cdc_write_available, Tud_cdc_write_flush, Ets_delay_us 100])
               @ [Tud_cdc_write_available, Tud_cdc_write n, ESP_LOGD (Ringbuffer_to_cdc 0)]\<rparr>)"
proof -
  have ten: "(10::nat) = Suc (Suc (Suc (Suc (Suc (Suc (Suc (Suc (Suc (Suc 0)))))))))"
    and nine: "(9::nat) = Suc (Suc (Suc (Suc (Suc (Suc (Suc (Suc (Suc 0))))))))"
    by simp_all
  show ?thesis
    unfolding ten nine funpow.simps o_apply id_apply replicate.simps
    using assms by (simp add: usb_send_body_retry usb_send_body_write)
qed

text \<open>
  The loop leaves only when \<open>transferred\<close> reaches \<open>ringbuf_received\<close>, so against a
  stalled host it does not return.
\<close>

lemma usb_send_loop_stalled_aux:
  assumes "usb_send_loop int_buf n v = Some y"
  shows "\<not> stall_inv n v"
proof (rule usb_send_loop.raw_induct [where P = "\<lambda>int_buf n v y. \<not> stall_inv n v", OF _ assms])
  fix loop :: "byte list \<Rightarrow> u32 \<Rightarrow> u32 \<times> u32 \<times> u32 \<times> bridge \<Rightarrow> bridge option"
  fix int_buf n v y
  assume IH: "\<And>int_buf n v y. loop int_buf n v = Some y \<Longrightarrow> \<not> stall_inv n v"
    and eq: "(if fst v < n then loop int_buf n (usb_send_body int_buf v)
              else Some (snd (snd (snd v)))) = Some y"
  show "\<not> stall_inv n v"
  proof
    assume inv: "stall_inv n v"
    obtain try_cnt s where v: "v = (0, n, try_cnt, s)" and st: "host_stalled s" and n: "n \<noteq> 0"
      using inv by (cases v) (auto simp add: stall_inv_def)
    obtain try_cnt' s' where body: "usb_send_body int_buf v = (0, n, try_cnt', s')"
        and st': "host_stalled s'"
      using usb_send_body_stalled [OF st n, of int_buf try_cnt] v by auto
    have "loop int_buf n (usb_send_body int_buf v) = Some y"
      using eq v n by (simp add: word_greater_zero_iff)
    from IH [OF this] show False
      using body st' n by (simp add: stall_inv_def)
  qed
qed

lemma usb_send_loop_stalled:
  assumes "host_stalled s" and "n \<noteq> 0"
  shows "usb_send_loop int_buf n (0, n, try_cnt, s) = None"
proof (cases "usb_send_loop int_buf n (0, n, try_cnt, s)")
  case None
  then show ?thesis .
next
  case (Some y)
  from usb_send_loop_stalled_aux [OF this] assms show ?thesis by (simp add: stall_inv_def)
qed


text \<open>
  The same loop returns when the host reads: three bytes through a 2-byte FIFO.
\<close>

lemma reading_example_run:
  "map_option (\<lambda>s. (usb_sendbuf s, host_received s, cdc_tx_fifo s)) (usb_sender_task 64 reading_example)
     = Some ([], [0x41, 0x42, 0x43], [])"
  by (simp add: usb_sender_task_def reading_example_def power_on_def xRingbufferReceiveUpTo_def
     vRingbufferReturnItem_def usb_send_loop.simps usb_send_body_def port_defs Let_def)


text \<open>
  C3. When the host has stopped reading, so that the port's free space stays below the
  remaining amount and every write takes 0 bytes, a pass of the sender loop that has
  drained a chunk from the relay buffer does not return: after the nine retries the
  write takes nothing, \<open>try_cnt\<close> is set back to 0 and the loop starts over. The claim
  that the send goes on past the chunk after its retry budget does not hold of the code.
\<close>

theorem usb_sender_task_stalled_host:
  assumes "host_stalled s" and "usb_sendbuf s \<noteq> []" and "0 < tx_bufsize"
    and "length (usb_sendbuf s) \<le> USB_SEND_RINGBUFFER_SIZE"
  shows "usb_sender_task tx_bufsize s = None"
proof -
  let ?buf = "take tx_bufsize (usb_sendbuf s)"
  have len: "0 < length ?buf" "length ?buf \<le> 2048"
    using assms(2-4) by (simp_all add: USB_SEND_RINGBUFFER_SIZE_def SLAVE_UART_BUF_SIZE_def)
  have "unat (of_nat (length ?buf) :: u32) = length ?buf"
    using len(2) by (simp add: unat_of_nat)
  then have n: "(of_nat (length ?buf) :: u32) \<noteq> 0"
    using len(1) by (metis unat_0 less_numeral_extra(3))
  have st: "host_stalled (vRingbufferReturnItem ?buf
              (emit (XRingbufferReceiveUpTo (pdMS_TO_TICKS 100) tx_bufsize) s))"
    using assms(1) by (simp add: host_stalled_def vRingbufferReturnItem_def emit_def)
  show ?thesis
    using usb_send_loop_stalled [OF st n, of ?buf 0] len(1)
    by (simp add: usb_sender_task_def xRingbufferReceiveUpTo_def Let_def)
qed

theorem usb_sender_task_stalled_host_witness:
  "host_stalled stalled_example \<and> usb_sendbuf stalled_example \<noteq> [] \<and> (0::nat) < 64
   \<and> length (usb_sendbuf stalled_example) \<le> USB_SEND_RINGBUFFER_SIZE
   \<and> usb_sender_task 64 stalled_example = None"
  using usb_sender_task_stalled_host [of stalled_example 64]
  by (simp add: stalled_example_def power_on_def host_stalled_def
        USB_SEND_RINGBUFFER_SIZE_def SLAVE_UART_BUF_SIZE_def)



subsection \<open>The relay loop\<close>

lemmas relay_defs =
  uart_event_task_def xQueueReceive_def uart_read_bytes_def uart_flush_input_def xQueueReset_def
  xRingbufferSend_def xRingbufferGetCurFreeSize_def vTaskDelay_def taskYIELD_def emit_def

lemmas sender_defs =
  usb_sender_task_def xRingbufferReceiveUpTo_def vRingbufferReturnItem_def

text \<open>
  The relay loop's wait for the next event and its read of the event's bytes are made
  with \<open>portMAX_DELAY\<close>: on an empty queue, and on a DATA(3) event with two bytes in
  the port, the pass does not return.
\<close>

theorem relay_waits_without_limit_counterexample:
  "uart_event_task (running_example\<lparr>uart_queue := []\<rparr>) = Inl Blocked
   \<and> uart_event_task (running_example\<lparr>uart_queue := [UART_DATA 3], uart_rx := [1, 2]\<rparr>)
       = Inl Blocked"
  by (simp add: running_example_def power_on_def relay_defs)

text \<open>
  C4 (as amended). In the UART-to-host path the relay buffer's push and pop-up-to are
  called with limits of 10 ms and 100 ms, and with a limit they return in every state.
  The relay loop has two more waits, both without limit: the wait for the next UART
  event, and the read of n bytes on DATA(n). A pass of the relay loop is held exactly
  when the event queue is empty, or when the flag is set and the port holds fewer than n
  bytes at a DATA(n) event. With the n bytes there, the read returns and the push with
  its 10 ms limit follows; with the relay buffer empty, a pass of the sender loop
  returns after its 100 ms wait.
\<close>

theorem relay_blocking_points:
  "((uart_event_task s = Inl Blocked) =
      (case uart_queue s of
         [] \<Rightarrow> True
       | UART_DATA n # q \<Rightarrow> serial_read_enabled s \<and> length (uart_rx s) < n
       | _ \<Rightarrow> False))
   \<and> (\<exists>r. xRingbufferSend item (pdMS_TO_TICKS ms) s = Inr r)
   \<and> (\<exists>r. xRingbufferReceiveUpTo (pdMS_TO_TICKS ms) max_size s = Inr r)
   \<and> (uart_queue s = UART_DATA m # q \<and> serial_read_enabled s
        \<and> m \<le> length (uart_rx s) \<and> m \<le> SLAVE_UART_BUF_SIZE \<longrightarrow>
       (\<exists>s' rest. uart_event_task s = Inr s'
          \<and> trace s' = trace s @ [XQueueReceive portMAX_DELAY, Uart_read_bytes m portMAX_DELAY,
                                   ESP_LOGD (Uart_to_ringbuffer m),
                                   XRingbufferSend m (pdMS_TO_TICKS 10)] @ rest))
   \<and> (usb_sendbuf s = [] \<longrightarrow>
       usb_sender_task tx_bufsize s =
         Some (s\<lparr>trace := trace s @ [XRingbufferReceiveUpTo (pdMS_TO_TICKS 100) tx_bufsize,
                                      ESP_LOGD Nothing_to_send, VTaskDelay (pdMS_TO_TICKS 100)]\<rparr>))"
proof (intro conjI impI)
  show "(uart_event_task s = Inl Blocked) =
      (case uart_queue s of
         [] \<Rightarrow> True
       | UART_DATA n # q \<Rightarrow> serial_read_enabled s \<and> length (uart_rx s) < n
       | _ \<Rightarrow> False)"
    by (simp add: relay_defs Let_def USB_SEND_RINGBUFFER_SIZE_def SLAVE_UART_BUF_SIZE_def
          split: list.splits uart_event.splits)
next
  show "\<exists>r. xRingbufferSend item (pdMS_TO_TICKS ms) s = Inr r"
    by (auto simp add: xRingbufferSend_def Let_def)
next
  show "\<exists>r. xRingbufferReceiveUpTo (pdMS_TO_TICKS ms) max_size s = Inr r"
    by (auto simp add: xRingbufferReceiveUpTo_def Let_def)
next
  assume "uart_queue s = UART_DATA m # q \<and> serial_read_enabled s
            \<and> m \<le> length (uart_rx s) \<and> m \<le> SLAVE_UART_BUF_SIZE"
  then show "\<exists>s' rest. uart_event_task s = Inr s'
          \<and> trace s' = trace s @ [XQueueReceive portMAX_DELAY, Uart_read_bytes m portMAX_DELAY,
                                   ESP_LOGD (Uart_to_ringbuffer m),
                                   XRingbufferSend m (pdMS_TO_TICKS 10)] @ rest"
    by (simp add: relay_defs Let_def)
next
  assume "usb_sendbuf s = []"
  then show "usb_sender_task tx_bufsize s =
         Some (s\<lparr>trace := trace s @ [XRingbufferReceiveUpTo (pdMS_TO_TICKS 100) tx_bufsize,
                                      ESP_LOGD Nothing_to_send, VTaskDelay (pdMS_TO_TICKS 100)]\<rparr>)"
    by (simp add: sender_defs vTaskDelay_def emit_def Let_def)
qed

theorem relay_blocking_points_witness:
  "uart_queue (running_example\<lparr>uart_queue := [UART_DATA 2], uart_rx := [1, 2, 3]\<rparr>)
     = UART_DATA 2 # []
   \<and> serial_read_enabled (running_example\<lparr>uart_queue := [UART_DATA 2], uart_rx := [1, 2, 3]\<rparr>)
   \<and> 2 \<le> length (uart_rx (running_example\<lparr>uart_queue := [UART_DATA 2], uart_rx := [1, 2, 3]\<rparr>))
   \<and> 2 \<le> SLAVE_UART_BUF_SIZE
   \<and> usb_sendbuf (running_example\<lparr>uart_queue := [UART_DATA 2], uart_rx := [1, 2, 3]\<rparr>) = []
   \<and> uart_event_task (running_example\<lparr>uart_queue := [UART_DATA 2], uart_rx := [1, 2, 3]\<rparr>)
       \<noteq> Inl Blocked
   \<and> (\<exists>s'. uart_event_task (running_example\<lparr>uart_queue := [UART_DATA 2], uart_rx := [1, 2, 3]\<rparr>)
              = Inr s'
         \<and> trace s' = [XQueueReceive portMAX_DELAY, Uart_read_bytes 2 portMAX_DELAY,
                        ESP_LOGD (Uart_to_ringbuffer 2), XRingbufferSend 2 (pdMS_TO_TICKS 10),
                        TaskYIELD, VTaskDelay (pdMS_TO_TICKS 10)])
   \<and> (\<exists>s'. usb_sender_task 64 (running_example\<lparr>uart_queue := [UART_DATA 2], uart_rx := [1, 2, 3]\<rparr>)
              = Some s'
         \<and> trace s' = [XRingbufferReceiveUpTo (pdMS_TO_TICKS 100) 64, ESP_LOGD Nothing_to_send,
                        VTaskDelay (pdMS_TO_TICKS 100)])"
  using relay_blocking_points
          [where s = "running_example\<lparr>uart_queue := [UART_DATA 2], uart_rx := [1, 2, 3]\<rparr>"
             and m = 2 and q = "[]" and tx_bufsize = 64]
  by (simp add: running_example_def power_on_def relay_defs sender_defs
        SLAVE_UART_BUF_SIZE_def USB_SEND_RINGBUFFER_SIZE_def)




text \<open>
  C6. On FIFO_OVERFLOW and on BUFFER_FULL the pass logs a warning, flushes the UART's
  input and resets the event queue, so that the events still queued are gone; it returns
  whatever the port and the relay buffer hold, and the relay buffer's contents are as
  before. A DATA event that arrives afterwards with its bytes is relayed as usual.
\<close>

theorem relay_overflow_recovery:
  assumes "uart_queue s = e # q" and "e = UART_FIFO_OVF \<or> e = UART_BUFFER_FULL"
  shows "\<exists>s'. uart_event_task s = Inr s'
           \<and> uart_rx s' = [] \<and> uart_queue s' = [] \<and> usb_sendbuf s' = usb_sendbuf s
           \<and> serial_read_enabled s' = serial_read_enabled s
           \<and> trace s' = trace s @
               [XQueueReceive portMAX_DELAY,
                ESP_LOGW (if e = UART_FIFO_OVF then Uart_fifo_overflow else Uart_ring_buffer_full),
                Uart_flush_input, XQueueReset, TaskYIELD, VTaskDelay (pdMS_TO_TICKS 10)]
           \<and> (serial_read_enabled s \<and> length bs \<le> SLAVE_UART_BUF_SIZE
                \<and> length bs \<le> USB_SEND_RINGBUFFER_SIZE - length (usb_sendbuf s) \<longrightarrow>
              (\<exists>s''. uart_event_task (s'\<lparr>uart_queue := [UART_DATA (length bs)], uart_rx := bs\<rparr>)
                        = Inr s''
                 \<and> usb_sendbuf s'' = usb_sendbuf s @ bs \<and> uart_rx s'' = []))"
  using assms by (auto simp add: relay_defs Let_def)


theorem relay_overflow_recovery_witness:
  "uart_queue (running_example\<lparr>uart_queue := [UART_FIFO_OVF, UART_DATA 5, UART_DATA 7],
                               uart_rx := [1, 2, 3], usb_sendbuf := [8, 9]\<rparr>)
     = UART_FIFO_OVF # [UART_DATA 5, UART_DATA 7]
   \<and> (UART_FIFO_OVF = UART_FIFO_OVF \<or> UART_FIFO_OVF = UART_BUFFER_FULL)
   \<and> (\<exists>s'. uart_event_task
               (running_example\<lparr>uart_queue := [UART_FIFO_OVF, UART_DATA 5, UART_DATA 7],
                                uart_rx := [1, 2, 3], usb_sendbuf := [8, 9]\<rparr>) = Inr s'
         \<and> uart_rx s' = [] \<and> uart_queue s' = [] \<and> usb_sendbuf s' = [8, 9]
         \<and> trace s' = [XQueueReceive portMAX_DELAY, ESP_LOGW Uart_fifo_overflow,
                        Uart_flush_input, XQueueReset, TaskYIELD, VTaskDelay (pdMS_TO_TICKS 10)]
         \<and> (\<exists>s''. uart_event_task (s'\<lparr>uart_queue := [UART_DATA (length [4, 5 :: byte])],
                                      uart_rx := [4, 5]\<rparr>) = Inr s''
               \<and> usb_sendbuf s'' = [8, 9, 4, 5]))"
  using relay_overflow_recovery
          [of "running_example\<lparr>uart_queue := [UART_FIFO_OVF, UART_DATA 5, UART_DATA 7],
                               uart_rx := [1, 2, 3], usb_sendbuf := [8, 9]\<rparr>"
              UART_FIFO_OVF "[UART_DATA 5, UART_DATA 7]" "[4, 5]"]
  by (simp add: running_example_def power_on_def relay_defs
        SLAVE_UART_BUF_SIZE_def USB_SEND_RINGBUFFER_SIZE_def)



subsection \<open>The read-enable flag\<close>


subsection \<open>What the sender's loop can change\<close>

lemma same_but_port_refl: "same_but_port s s"
  by (simp add: same_but_port_def)

lemma same_but_port_fields:
  "same_but_port s s' \<Longrightarrow>
     serial_init_finished s' = serial_init_finished s \<and> serial_read_enabled s' = serial_read_enabled s
     \<and> uart_queue s' = uart_queue s \<and> usb_sendbuf s' = usb_sendbuf s
     \<and> state_change_timer s' = state_change_timer s \<and> gpio_boot s' = gpio_boot s
     \<and> gpio_rst s' = gpio_rst s \<and> uart_rx s' = uart_rx s \<and> uart_tx s' = uart_tx s
     \<and> uart_tx_room s' = uart_tx_room s \<and> cdc_rx s' = cdc_rx s
     \<and> cdc_tx_fifo_size s' = cdc_tx_fifo_size s \<and> host_reading s' = host_reading s"
  by (cases s; cases s') (simp add: same_but_port_def)

lemma same_but_port_trans:
  "same_but_port a b \<Longrightarrow> same_but_port b c \<Longrightarrow> same_but_port a c"
  by (cases a; cases b; cases c) (simp add: same_but_port_def)

lemma port_calls_since_iff:
  "port_calls_since s s' = (\<exists>rest. trace s' = trace s @ rest \<and> list_all is_port_call rest)"
  unfolding port_calls_since_def
  by (metis append_eq_conv_conj append_take_drop_id)

lemma port_calls_since_trans:
  "port_calls_since a b \<Longrightarrow> port_calls_since b c \<Longrightarrow> port_calls_since a c"
  by (auto simp add: port_calls_since_iff)

lemma usb_send_body_port:
  "same_but_port s (snd (snd (snd (usb_send_body int_buf (t, n, c, s)))))
   \<and> port_calls_since s (snd (snd (snd (usb_send_body int_buf (t, n, c, s)))))"
  by (cases s)
     (simp add: usb_send_body_def port_defs Let_def same_but_port_def port_calls_since_def
        split: prod.splits)


lemma usb_send_passes_port:
  "same_but_port s (snd (snd (snd ((usb_send_body int_buf ^^ k) (t, n, c, s)))))
   \<and> port_calls_since s (snd (snd (snd ((usb_send_body int_buf ^^ k) (t, n, c, s)))))"
proof (induction k)
  case 0
  show ?case by (simp add: same_but_port_refl port_calls_since_def)
next
  case (Suc k)
  obtain t' n' c' s' where v: "(usb_send_body int_buf ^^ k) (t, n, c, s) = (t', n', c', s')"
    by (cases "(usb_send_body int_buf ^^ k) (t, n, c, s)") auto
  have "same_but_port s s'" and "port_calls_since s s'"
    using Suc.IH v by simp_all
  moreover have "same_but_port s' (snd (snd (snd (usb_send_body int_buf (t', n', c', s')))))"
    and "port_calls_since s' (snd (snd (snd (usb_send_body int_buf (t', n', c', s')))))"
    using usb_send_body_port [of s' int_buf t' n' c'] by simp_all
  ultimately show ?case
    using v by (auto intro: same_but_port_trans port_calls_since_trans)
qed

lemma usb_send_loop_port:
  assumes "usb_send_loop int_buf n v = Some y"
  shows "same_but_port (snd (snd (snd v))) y \<and> port_calls_since (snd (snd (snd v))) y"
proof (rule usb_send_loop.raw_induct
    [where P = "\<lambda>int_buf n v y. same_but_port (snd (snd (snd v))) y
                               \<and> port_calls_since (snd (snd (snd v))) y", OF _ assms])
  fix loop :: "byte list \<Rightarrow> u32 \<Rightarrow> u32 \<times> u32 \<times> u32 \<times> bridge \<Rightarrow> bridge option"
  fix int_buf n v y
  assume IH: "\<And>int_buf n v y. loop int_buf n v = Some y \<Longrightarrow>
                same_but_port (snd (snd (snd v))) y \<and> port_calls_since (snd (snd (snd v))) y"
    and eq: "(if fst v < n then loop int_buf n (usb_send_body int_buf v)
              else Some (snd (snd (snd v)))) = Some y"
  obtain t m c s where v: "v = (t, m, c, s)"
    by (cases v) auto
  show "same_but_port (snd (snd (snd v))) y \<and> port_calls_since (snd (snd (snd v))) y"
  proof (cases "fst v < n")
    case True
    then have "loop int_buf n (usb_send_body int_buf v) = Some y"
      using eq by simp
    from IH [OF this] usb_send_body_port [of s int_buf t m c] show ?thesis
      using v by (auto intro: same_but_port_trans port_calls_since_trans)
  next
    case False
    then have "y = snd (snd (snd v))"
      using eq by simp
    then show ?thesis
      by (simp add: same_but_port_refl port_calls_since_def)
  qed
qed

lemma tud_cdc_write_flush_port:
  "same_but_port s (tud_cdc_write_flush s) \<and> port_calls_since s (tud_cdc_write_flush s)"
  by (cases s) (simp add: port_defs same_but_port_def port_calls_since_def)

lemma usb_send_body_private_aux:
  "fst (usb_send_body buf (t, n, c, x\<lparr>usb_sendbuf := xs\<rparr>)) = fst (usb_send_body buf (t, n, c, x))
 \<and> fst (snd (usb_send_body buf (t, n, c, x\<lparr>usb_sendbuf := xs\<rparr>))) = fst (snd (usb_send_body buf (t, n, c, x)))
 \<and> fst (snd (snd (usb_send_body buf (t, n, c, x\<lparr>usb_sendbuf := xs\<rparr>)))) = fst (snd (snd (usb_send_body buf (t, n, c, x))))
 \<and> snd (snd (snd (usb_send_body buf (t, n, c, x\<lparr>usb_sendbuf := xs\<rparr>)))) = (snd (snd (snd (usb_send_body buf (t, n, c, x)))))\<lparr>usb_sendbuf := xs\<rparr>"
  by (cases x)
     (simp add: usb_send_body_def port_defs Let_def split: prod.splits)

lemma usb_send_body_private:
  "usb_send_body buf (t, n, c, x\<lparr>usb_sendbuf := xs\<rparr>) =
     (case usb_send_body buf (t, n, c, x) of
        (t', n', c', x') \<Rightarrow> (t', n', c', x'\<lparr>usb_sendbuf := xs\<rparr>))"
  using usb_send_body_private_aux [where buf = buf and t = t and n = n and c = c and x = x and xs = xs]
  by (simp add: split_beta prod_eq_iff)




text \<open>
  The flag is false until \<open>start_serial_task\<close> completes, which enables it.
\<close>

lemma start_serial_task_enables:
  "\<not> serial_read_enabled (serial_set False power_on)
   \<and> (\<exists>s'. start_serial_task True True (serial_set False power_on) = Inr s'
          \<and> serial_read_enabled s')"
  by (simp add: start_serial_task_def serial_set_def power_on_def init_state_change_timer_def
        gpio_set_level_def emit_def)




subsection \<open>The host callbacks\<close>

lemmas rx_cb_defs = tud_cdc_rx_cb_def tud_cdc_n_read_def uart_write_bytes_def emit_def

lemma tud_cdc_n_read_eq:
  "tud_cdc_n_read itf n s =
     (take n (cdc_rx s), s\<lparr>cdc_rx := drop n (cdc_rx s), trace := trace s @ [Tud_cdc_n_read n]\<rparr>)"
  by (simp add: tud_cdc_n_read_def emit_def Let_def min_def)

text \<open>
  C8. Before initialisation has completed, the receive callback and the line-state
  callback log one warning and return: UART, pins and timer are as before, and the
  received bytes are still in the port. After initialisation, a read of no bytes logs a
  warning and nothing else. When the UART takes fewer bytes than the callback read, the
  number taken is logged as a warning; \<open>uart_write_bytes\<close> is called once, and the
  bytes not taken are neither in the UART nor back in the port. When the UART takes them
  all, no warning is logged.
\<close>

theorem callbacks_before_init:
  "(\<not> serial_init_finished s \<longrightarrow>
      tud_cdc_rx_cb rx_bufsize itf s = s\<lparr>trace := trace s @ [ESP_LOGW Not_initialized]\<rparr>
      \<and> tud_cdc_line_state_cb itf dtr rts s
          = Inr (s\<lparr>trace := trace s @ [ESP_LOGW Not_initialized]\<rparr>))
   \<and> (serial_init_finished s \<and> take rx_bufsize (cdc_rx s) = [] \<longrightarrow>
      tud_cdc_rx_cb rx_bufsize itf s =
        s\<lparr>trace := trace s @ [Tud_cdc_n_read rx_bufsize, ESP_LOGW Rx_receive_error]\<rparr>)
   \<and> (serial_init_finished s \<and> take rx_bufsize (cdc_rx s) = bytes \<and> bytes \<noteq> []
        \<and> uart_tx_room s < length bytes \<longrightarrow>
      tud_cdc_rx_cb rx_bufsize itf s =
        s\<lparr>cdc_rx := drop rx_bufsize (cdc_rx s),
           uart_tx := uart_tx s @ take (uart_tx_room s) bytes,
           uart_tx_room := 0,
           trace := trace s @ [Tud_cdc_n_read rx_bufsize, ESP_LOGD (Cdc_to_uart (length bytes)),
                               Uart_write_bytes (length bytes),
                               ESP_LOGW (Transferred_only (uart_tx_room s))]\<rparr>)
   \<and> (serial_init_finished s \<and> take rx_bufsize (cdc_rx s) = bytes \<and> bytes \<noteq> []
        \<and> length bytes \<le> uart_tx_room s \<longrightarrow>
      tud_cdc_rx_cb rx_bufsize itf s =
        s\<lparr>cdc_rx := drop rx_bufsize (cdc_rx s),
           uart_tx := uart_tx s @ bytes,
           uart_tx_room := uart_tx_room s - length bytes,
           trace := trace s @ [Tud_cdc_n_read rx_bufsize, ESP_LOGD (Cdc_to_uart (length bytes)),
                               Uart_write_bytes (length bytes)]\<rparr>)"
proof (intro conjI impI)
  assume "\<not> serial_init_finished s"
  then show "tud_cdc_rx_cb rx_bufsize itf s = s\<lparr>trace := trace s @ [ESP_LOGW Not_initialized]\<rparr>"
    and "tud_cdc_line_state_cb itf dtr rts s
          = Inr (s\<lparr>trace := trace s @ [ESP_LOGW Not_initialized]\<rparr>)"
    by (simp_all add: tud_cdc_rx_cb_def tud_cdc_line_state_cb_def emit_def)
next
  assume "serial_init_finished s \<and> take rx_bufsize (cdc_rx s) = []"
  then show "tud_cdc_rx_cb rx_bufsize itf s =
        s\<lparr>trace := trace s @ [Tud_cdc_n_read rx_bufsize, ESP_LOGW Rx_receive_error]\<rparr>"
    by (cases s) (auto simp add: tud_cdc_rx_cb_def tud_cdc_n_read_eq emit_def)
next
  assume a: "serial_init_finished s \<and> take rx_bufsize (cdc_rx s) = bytes \<and> bytes \<noteq> []
        \<and> uart_tx_room s < length bytes"
  show "tud_cdc_rx_cb rx_bufsize itf s =
        s\<lparr>cdc_rx := drop rx_bufsize (cdc_rx s),
           uart_tx := uart_tx s @ take (uart_tx_room s) bytes,
           uart_tx_room := 0,
           trace := trace s @ [Tud_cdc_n_read rx_bufsize, ESP_LOGD (Cdc_to_uart (length bytes)),
                               Uart_write_bytes (length bytes),
                               ESP_LOGW (Transferred_only (uart_tx_room s))]\<rparr>"
    using a by (simp add: tud_cdc_rx_cb_def tud_cdc_n_read_eq uart_write_bytes_def emit_def
          Let_def min_absorb1 min_absorb2)
next
  assume a: "serial_init_finished s \<and> take rx_bufsize (cdc_rx s) = bytes \<and> bytes \<noteq> []
        \<and> length bytes \<le> uart_tx_room s"
  show "tud_cdc_rx_cb rx_bufsize itf s =
        s\<lparr>cdc_rx := drop rx_bufsize (cdc_rx s),
           uart_tx := uart_tx s @ bytes,
           uart_tx_room := uart_tx_room s - length bytes,
           trace := trace s @ [Tud_cdc_n_read rx_bufsize, ESP_LOGD (Cdc_to_uart (length bytes)),
                               Uart_write_bytes (length bytes)]\<rparr>"
    using a by (simp add: tud_cdc_rx_cb_def tud_cdc_n_read_eq uart_write_bytes_def emit_def
          Let_def min_absorb1 min_absorb2)
qed


theorem callbacks_before_init_witness:
  "\<not> serial_init_finished (power_on\<lparr>cdc_rx := [1, 2, 3]\<rparr>)
   \<and> tud_cdc_rx_cb 64 0 (power_on\<lparr>cdc_rx := [1, 2, 3]\<rparr>)
       = power_on\<lparr>cdc_rx := [1, 2, 3], trace := [ESP_LOGW Not_initialized]\<rparr>
   \<and> tud_cdc_line_state_cb 0 True True (power_on\<lparr>cdc_rx := [1, 2, 3]\<rparr>)
       = Inr (power_on\<lparr>cdc_rx := [1, 2, 3], trace := [ESP_LOGW Not_initialized]\<rparr>)
   \<and> serial_init_finished running_example \<and> take 64 (cdc_rx running_example) = []
   \<and> tud_cdc_rx_cb 64 0 running_example
       = running_example\<lparr>trace := [Tud_cdc_n_read 64, ESP_LOGW Rx_receive_error]\<rparr>
   \<and> take 64 (cdc_rx (running_example\<lparr>cdc_rx := [1, 2, 3], uart_tx_room := 2\<rparr>)) = [1, 2, 3]
   \<and> uart_tx_room (running_example\<lparr>cdc_rx := [1, 2, 3], uart_tx_room := 2\<rparr>)
       < length [1, 2, 3 :: byte]
   \<and> tud_cdc_rx_cb 64 0 (running_example\<lparr>cdc_rx := [1, 2, 3], uart_tx_room := 2\<rparr>)
       = running_example\<lparr>cdc_rx := [], uart_tx := [1, 2], uart_tx_room := 0,
            trace := [Tud_cdc_n_read 64, ESP_LOGD (Cdc_to_uart 3), Uart_write_bytes 3,
                      ESP_LOGW (Transferred_only 2)]\<rparr>
   \<and> length [1, 2, 3 :: byte] \<le> uart_tx_room (running_example\<lparr>cdc_rx := [1, 2, 3]\<rparr>)
   \<and> tud_cdc_rx_cb 64 0 (running_example\<lparr>cdc_rx := [1, 2, 3]\<rparr>)
       = running_example\<lparr>cdc_rx := [], uart_tx := [1, 2, 3], uart_tx_room := 125,
            trace := [Tud_cdc_n_read 64, ESP_LOGD (Cdc_to_uart 3), Uart_write_bytes 3]\<rparr>"
  using callbacks_before_init
          [where s = "power_on\<lparr>cdc_rx := [1, 2, 3]\<rparr>" and rx_bufsize = 64 and itf = 0
             and dtr = True and rts = True]
        callbacks_before_init
          [where s = running_example and rx_bufsize = 64 and itf = 0]
        callbacks_before_init
          [where s = "running_example\<lparr>cdc_rx := [1, 2, 3], uart_tx_room := 2\<rparr>"
             and rx_bufsize = 64 and itf = 0 and bytes = "[1, 2, 3]"]
        callbacks_before_init
          [where s = "running_example\<lparr>cdc_rx := [1, 2, 3]\<rparr>"
             and rx_bufsize = 64 and itf = 0 and bytes = "[1, 2, 3]"]
  by (simp add: running_example_def power_on_def)

subsection \<open>The sender loop and the relay buffer\<close>

text \<open>
  C9. A pass of the sender loop that finds data takes the chunk and returns the item to
  the relay buffer before it calls the port: the trace begins with the receive and the
  return, and the buffer is shorter by the chunk from then on. Every pass of the \<open>for\<close>
  loop after that, and the final flush, change only the port and add only port calls to
  the trace, so the buffer's space stays free whatever the host does and nothing is put
  back into the buffer. The loop works on its own copy of the chunk: what it does is the
  same whatever the relay buffer holds meanwhile.
\<close>

theorem sender_returns_item_before_writing:
  assumes "usb_sendbuf s \<noteq> []" and "0 < tx_bufsize"
    and "buf = take tx_bufsize (usb_sendbuf s)"
    and "s2 = vRingbufferReturnItem buf
                (emit (XRingbufferReceiveUpTo (pdMS_TO_TICKS 100) tx_bufsize) s)"
  shows "usb_sender_task tx_bufsize s =
           (case usb_send_loop buf (of_nat (length buf)) (0, of_nat (length buf), 0, s2) of
              None \<Rightarrow> None
            | Some s3 \<Rightarrow> Some (tud_cdc_write_flush s3))
       \<and> trace s2 = trace s @ [XRingbufferReceiveUpTo (pdMS_TO_TICKS 100) tx_bufsize,
                                VRingbufferReturnItem]
       \<and> usb_sendbuf s2 = drop (length buf) (usb_sendbuf s)
       \<and> length (usb_sendbuf s2) < length (usb_sendbuf s)
       \<and> (\<forall>k. same_but_port s2
                 (snd (snd (snd ((usb_send_body buf ^^ k) (0, of_nat (length buf), 0, s2)))))
              \<and> port_calls_since s2
                 (snd (snd (snd ((usb_send_body buf ^^ k) (0, of_nat (length buf), 0, s2))))))
       \<and> (\<forall>s'. usb_sender_task tx_bufsize s = Some s' \<longrightarrow>
              same_but_port s2 s' \<and> port_calls_since s2 s'
              \<and> usb_sendbuf s' = drop (length buf) (usb_sendbuf s))
       \<and> (\<forall>xs t n c x. usb_send_body buf (t, n, c, x\<lparr>usb_sendbuf := xs\<rparr>) =
              (case usb_send_body buf (t, n, c, x) of
                 (t', n', c', x') \<Rightarrow> (t', n', c', x'\<lparr>usb_sendbuf := xs\<rparr>)))"
proof (intro conjI allI impI)
  have ne: "buf \<noteq> []"
    using assms(1-3) by (cases "usb_sendbuf s"; cases tx_bufsize) simp_all
  show task: "usb_sender_task tx_bufsize s =
           (case usb_send_loop buf (of_nat (length buf)) (0, of_nat (length buf), 0, s2) of
              None \<Rightarrow> None
            | Some s3 \<Rightarrow> Some (tud_cdc_write_flush s3))"
    using ne assms(3,4) by (simp add: usb_sender_task_def xRingbufferReceiveUpTo_def Let_def)
  show "trace s2 = trace s @ [XRingbufferReceiveUpTo (pdMS_TO_TICKS 100) tx_bufsize,
                                VRingbufferReturnItem]"
    using assms(4) by (simp add: vRingbufferReturnItem_def emit_def)
  show reclaimed: "usb_sendbuf s2 = drop (length buf) (usb_sendbuf s)"
    using assms(4) by (simp add: vRingbufferReturnItem_def emit_def)
  show "length (usb_sendbuf s2) < length (usb_sendbuf s)"
    using reclaimed ne assms(1) by (cases "usb_sendbuf s") simp_all
  fix k
  show "same_but_port s2
          (snd (snd (snd ((usb_send_body buf ^^ k) (0, of_nat (length buf), 0, s2)))))"
    and "port_calls_since s2
          (snd (snd (snd ((usb_send_body buf ^^ k) (0, of_nat (length buf), 0, s2)))))"
    using usb_send_passes_port [where s = s2 and int_buf = buf and k = k and t = 0
            and n = "of_nat (length buf)" and c = 0] by simp_all
next
  fix s'
  assume ret: "usb_sender_task tx_bufsize s = Some s'"
  have ne: "buf \<noteq> []"
    using assms(1-3) by (cases "usb_sendbuf s"; cases tx_bufsize) simp_all
  have task: "usb_sender_task tx_bufsize s =
           (case usb_send_loop buf (of_nat (length buf)) (0, of_nat (length buf), 0, s2) of
              None \<Rightarrow> None
            | Some s3 \<Rightarrow> Some (tud_cdc_write_flush s3))"
    using ne assms(3,4) by (simp add: usb_sender_task_def xRingbufferReceiveUpTo_def Let_def)
  then obtain s3 where
      loop: "usb_send_loop buf (of_nat (length buf)) (0, of_nat (length buf), 0, s2) = Some s3"
      and s': "s' = tud_cdc_write_flush s3"
    using ret by (auto split: option.splits)
  have a: "same_but_port s2 s3" and b: "port_calls_since s2 s3"
    using usb_send_loop_port [OF loop] by simp_all
  show c: "same_but_port s2 s'"
    using a tud_cdc_write_flush_port [of s3] s' by (auto intro: same_but_port_trans)
  show "port_calls_since s2 s'"
    using b tud_cdc_write_flush_port [of s3] s' by (auto intro: port_calls_since_trans)
  show "usb_sendbuf s' = drop (length buf) (usb_sendbuf s)"
    using same_but_port_fields [OF c] assms(4) by (simp add: vRingbufferReturnItem_def emit_def)
next
  fix xs t n c x
  show "usb_send_body buf (t, n, c, x\<lparr>usb_sendbuf := xs\<rparr>) =
              (case usb_send_body buf (t, n, c, x) of
                 (t', n', c', x') \<Rightarrow> (t', n', c', x'\<lparr>usb_sendbuf := xs\<rparr>))"
    by (rule usb_send_body_private)
qed


theorem sender_returns_item_before_writing_witness:
  "usb_sendbuf reading_example \<noteq> [] \<and> (0::nat) < 64
   \<and> (\<exists>s'. usb_sender_task 64 reading_example = Some s'
          \<and> usb_sendbuf s' = drop (length (take 64 (usb_sendbuf reading_example)))
                                (usb_sendbuf reading_example)
          \<and> usb_sendbuf s' = [] \<and> host_received s' = [0x41, 0x42, 0x43])"
proof -
  have h1: "usb_sendbuf reading_example \<noteq> []"
    by (simp add: reading_example_def power_on_def)
  have h2: "(0::nat) < 64"
    by simp
  obtain s' where ret: "usb_sender_task 64 reading_example = Some s'"
      and got: "usb_sendbuf s' = []" "host_received s' = [0x41, 0x42, 0x43]"
    using reading_example_run by auto
  from sender_returns_item_before_writing [OF h1 h2 refl refl] ret
  have "usb_sendbuf s' = drop (length (take 64 (usb_sendbuf reading_example)))
                              (usb_sendbuf reading_example)"
    by blast
  with h1 h2 ret got show ?thesis
    by simp
qed

subsection \<open>\<open>serial_set\<close>\<close>

text \<open>
  C10. \<open>serial_set(enable)\<close> assigns the flag in every state and changes nothing
  else; it logs nothing. Before initialisation has completed the two host callbacks
  return at their guard with a warning, and \<open>serial_set\<close> still assigns: after
  \<open>serial_set(true)\<close> in that window a pass of the relay loop relays a DATA event's
  bytes although \<open>serial_init_finished\<close> is false. \<open>start_serial_task\<close> then sets the
  flag itself.
\<close>

theorem serial_set_unguarded:
  "serial_read_enabled (serial_set enable s) = enable
   \<and> serial_set enable s = s\<lparr>serial_read_enabled := enable\<rparr>
   \<and> (\<not> serial_init_finished s \<longrightarrow>
        tud_cdc_rx_cb rx_bufsize itf s = s\<lparr>trace := trace s @ [ESP_LOGW Not_initialized]\<rparr>
        \<and> tud_cdc_line_state_cb itf dtr rts s
            = Inr (s\<lparr>trace := trace s @ [ESP_LOGW Not_initialized]\<rparr>)
        \<and> trace (serial_set enable s) = trace s
        \<and> serial_read_enabled (serial_set enable s) = enable)
   \<and> (\<not> serial_init_finished s \<and> uart_queue s = UART_DATA n # q
        \<and> n \<le> length (uart_rx s) \<and> n \<le> SLAVE_UART_BUF_SIZE
        \<and> n \<le> USB_SEND_RINGBUFFER_SIZE - length (usb_sendbuf s) \<longrightarrow>
        (\<exists>s'. uart_event_task (serial_set True s) = Inr s'
           \<and> usb_sendbuf s' = usb_sendbuf s @ take n (uart_rx s)
           \<and> \<not> serial_init_finished s'))
   \<and> (\<forall>s'. start_serial_task True True (serial_set enable s) = Inr s' \<longrightarrow>
          serial_init_finished s' \<and> serial_read_enabled s')"
proof (intro conjI impI allI)
  show "serial_read_enabled (serial_set enable s) = enable"
    and "serial_set enable s = s\<lparr>serial_read_enabled := enable\<rparr>"
    and "trace (serial_set enable s) = trace s"
    and "serial_read_enabled (serial_set enable s) = enable"
    by (simp_all add: serial_set_def)
next
  assume "\<not> serial_init_finished s"
  then show "tud_cdc_rx_cb rx_bufsize itf s = s\<lparr>trace := trace s @ [ESP_LOGW Not_initialized]\<rparr>"
    and "tud_cdc_line_state_cb itf dtr rts s
            = Inr (s\<lparr>trace := trace s @ [ESP_LOGW Not_initialized]\<rparr>)"
    by (simp_all add: tud_cdc_rx_cb_def tud_cdc_line_state_cb_def emit_def)
next
  assume "\<not> serial_init_finished s \<and> uart_queue s = UART_DATA n # q
        \<and> n \<le> length (uart_rx s) \<and> n \<le> SLAVE_UART_BUF_SIZE
        \<and> n \<le> USB_SEND_RINGBUFFER_SIZE - length (usb_sendbuf s)"
  then show "\<exists>s'. uart_event_task (serial_set True s) = Inr s'
           \<and> usb_sendbuf s' = usb_sendbuf s @ take n (uart_rx s)
           \<and> \<not> serial_init_finished s'"
    by (simp add: serial_set_def relay_defs Let_def)
next
  fix s' assume "start_serial_task True True (serial_set enable s) = Inr s'"
  then show "serial_init_finished s'" and "serial_read_enabled s'"
    by (auto simp add: start_serial_task_def emit_def Let_def)
qed

theorem serial_set_unguarded_witness:
  "\<not> serial_init_finished (power_on\<lparr>uart_queue := [UART_DATA 2], uart_rx := [1, 2, 3]\<rparr>)
   \<and> serial_read_enabled
        (serial_set True (power_on\<lparr>uart_queue := [UART_DATA 2], uart_rx := [1, 2, 3]\<rparr>))
   \<and> tud_cdc_rx_cb 64 0 (power_on\<lparr>uart_queue := [UART_DATA 2], uart_rx := [1, 2, 3]\<rparr>)
       = power_on\<lparr>uart_queue := [UART_DATA 2], uart_rx := [1, 2, 3],
                   trace := [ESP_LOGW Not_initialized]\<rparr>
   \<and> (\<exists>s'. uart_event_task
               (serial_set True (power_on\<lparr>uart_queue := [UART_DATA 2], uart_rx := [1, 2, 3]\<rparr>))
              = Inr s'
          \<and> usb_sendbuf s' = [1, 2] \<and> \<not> serial_init_finished s')
   \<and> (\<exists>s'. start_serial_task True True
               (serial_set False (power_on\<lparr>uart_queue := [UART_DATA 2], uart_rx := [1, 2, 3]\<rparr>))
              = Inr s'
          \<and> serial_init_finished s' \<and> serial_read_enabled s')"
  using serial_set_unguarded
          [where s = "power_on\<lparr>uart_queue := [UART_DATA 2], uart_rx := [1, 2, 3]\<rparr>"
             and enable = True and rx_bufsize = 64 and itf = 0 and n = 2 and q = "[]"]
        serial_set_unguarded
          [where s = "power_on\<lparr>uart_queue := [UART_DATA 2], uart_rx := [1, 2, 3]\<rparr>"
             and enable = False]
  by (simp add: power_on_def serial_set_def relay_defs start_serial_task_def
        init_state_change_timer_def gpio_set_level_def
        SLAVE_UART_BUF_SIZE_def USB_SEND_RINGBUFFER_SIZE_def)


end
